theory Spec2Isabelle
  imports Main "HOL-Library.Sublist"
begin

section \<open>The session store of SpotAPI (src/spotapi/session.py)\<close>

text \<open>
  \<^verbatim>\<open>SpotifySession\<close> keeps named cookie bundles in one JSON file and hands a matching
  record to \<^verbatim>\<open>Login.from_cookies\<close>. The embedding follows the four static methods
  \<^verbatim>\<open>setup\<close>, \<^verbatim>\<open>load\<close>, \<^verbatim>\<open>list_sessions\<close> and \<^verbatim>\<open>remove\<close> line by line. The file
  system, the standard output and the two collaborators are explicit.
\<close>

subsection \<open>Values that \<^verbatim>\<open>json.load\<close> returns\<close>

text \<open>
  A JSON object is a Python dict: an insertion-ordered list of key/value pairs. A float
  is kept as the text that \<^verbatim>\<open>repr\<close> and \<^verbatim>\<open>json.dump\<close> both print for it. Strings are
  sequences of code points below 256.
\<close>

datatype json =
    JNull
  | JBool bool
  | JInt int
  | JFloat string
  | JStr string
  | JArr "json list"
  | JObj "(string \<times> json) list"

text \<open>
  What is at a path: nothing, text on which \<^verbatim>\<open>json.load\<close> raises
  \<^verbatim>\<open>JSONDecodeError\<close>, or text that decodes to a value. \<^verbatim>\<open>json.dump\<close> of a value followed
  by \<^verbatim>\<open>json.load\<close> gives the value back, so a written file is \<open>Content v\<close>.
  Left out: the creation of parent directories (line 109), failures of the operating
  system on open, read and write, and the normalisation of paths by \<^verbatim>\<open>pathlib\<close>.
\<close>

datatype disk_file = Missing | Invalid | Content json

datatype exn =
    FileNotFoundError string
  | KeyError string
  | JSONDecodeError
  | TypeError
  | AttributeError
  | OtherError string

type_synonym path = string

record state =
  files :: "path \<Rightarrow> disk_file"
  stdout :: "string list"

text \<open>
  The collaborators: the home directory behind \<^verbatim>\<open>Path.home()\<close>, the client factory
  \<^verbatim>\<open>Login.from_cookies\<close> (it may raise), and the value of \<^verbatim>\<open>Config(logger=NoopLogger())\<close>.
\<close>

record ('cfg, 'login) env =
  home :: path
  from_cookies :: "json \<Rightarrow> 'cfg \<Rightarrow> exn + 'login"
  noop_config :: 'cfg

subsection \<open>Python built-ins used by the module\<close>

definition squote :: char where
  "squote = CHR 0x27"

definition dquote :: char where
  "dquote = CHR 0x22"

definition bslash :: char where
  "bslash = CHR 0x5C"

text \<open>\<^verbatim>\<open>str.isspace\<close> on code points below 256.\<close>

definition py_isspace :: "char \<Rightarrow> bool" where
  "py_isspace c =
     (let n = (of_char c :: nat)
      in (9 \<le> n \<and> n \<le> 13) \<or> (28 \<le> n \<and> n \<le> 32) \<or> n = 133 \<or> n = 160)"

text \<open>\<^verbatim>\<open>str.strip()\<close>: leading and trailing whitespace removed.\<close>

definition strip :: "string \<Rightarrow> string" where
  "strip s = rev (dropWhile py_isspace (rev (dropWhile py_isspace s)))"

definition hex_digit :: "nat \<Rightarrow> char" where
  "hex_digit n = ''0123456789abcdef'' ! (n mod 16)"

text \<open>\<^verbatim>\<open>repr\<close> of a string: the quote is chosen by the content, then escapes.\<close>

definition repr_char :: "char \<Rightarrow> char \<Rightarrow> string" where
  "repr_char q c =
     (let n = (of_char c :: nat) in
      if c = q \<or> c = bslash then [bslash, c]
      else if n = 9 then [bslash, CHR ''t'']
      else if n = 10 then [bslash, CHR ''n'']
      else if n = 13 then [bslash, CHR ''r'']
      else if n < 32 \<or> n = 127 \<or> (128 \<le> n \<and> n \<le> 160) \<or> n = 173
        then [bslash, CHR ''x'', hex_digit (n div 16), hex_digit n]
      else [c])"

definition repr_str :: "string \<Rightarrow> string" where
  "repr_str s =
     (let q = (if squote \<in> set s \<and> dquote \<notin> set s then dquote else squote)
      in [q] @ concat (map (repr_char q) s) @ [q])"

function digits :: "nat \<Rightarrow> string" where
  "digits n = (if n < 10 then [hex_digit n] else digits (n div 10) @ [hex_digit (n mod 10)])"
  by pat_completeness auto
termination
  by (relation "measure id") auto

definition repr_int :: "int \<Rightarrow> string" where
  "repr_int i = (if i < 0 then CHR ''-'' # digits (nat (- i)) else digits (nat i))"

fun join :: "string \<Rightarrow> string list \<Rightarrow> string" where
  "join sep [] = []"
| "join sep [x] = x"
| "join sep (x # y # ys) = x @ sep @ join sep (y # ys)"

fun py_repr :: "json \<Rightarrow> string" where
  "py_repr JNull = ''None''"
| "py_repr (JBool b) = (if b then ''True'' else ''False'')"
| "py_repr (JInt i) = repr_int i"
| "py_repr (JFloat r) = r"
| "py_repr (JStr s) = repr_str s"
| "py_repr (JArr xs) = ''['' @ join '', '' (map py_repr xs) @ '']''"
| "py_repr (JObj kvs) =
     ''{'' @ join '', '' (map (\<lambda>(k, v). repr_str k @ '': '' @ py_repr v) kvs) @ ''}''"

text \<open>
  \<^verbatim>\<open>for s in v\<close>: a list gives its elements, a dict its keys, a string its characters;
  anything else raises \<^verbatim>\<open>TypeError\<close>.
\<close>

fun py_iter :: "json \<Rightarrow> exn + json list" where
  "py_iter (JArr xs) = Inr xs"
| "py_iter (JObj kvs) = Inr (map (\<lambda>kv. JStr (fst kv)) kvs)"
| "py_iter (JStr cs) = Inr (map (\<lambda>c. JStr [c]) cs)"
| "py_iter v = Inl TypeError"

text \<open>
  \<^verbatim>\<open>s.get(k, d)\<close>: only a dict has the method; on any other value the attribute lookup
  raises \<^verbatim>\<open>AttributeError\<close>. \<^verbatim>\<open>s.get(k)\<close> is \<^verbatim>\<open>s.get(k, None)\<close>, and \<^verbatim>\<open>None\<close> is
  what JSON \<^verbatim>\<open>null\<close> decodes to.
\<close>

fun dict_get_default :: "json \<Rightarrow> string \<Rightarrow> json \<Rightarrow> exn + json" where
  "dict_get_default (JObj kvs) k d = Inr (case map_of kvs k of None \<Rightarrow> d | Some v \<Rightarrow> v)"
| "dict_get_default v k d = Inl AttributeError"

definition dict_get :: "json \<Rightarrow> string \<Rightarrow> exn + json" where
  "dict_get s k = dict_get_default s k JNull"

subsection \<open>The comprehensions of the module\<close>

text \<open>
  \<^verbatim>\<open>[s for s in sessions if s.get("identifier") != identifier]\<close> (lines 118 and 227) on
  the elements that the iteration yields. A value equals the string \<^verbatim>\<open>identifier\<close> only
  when it is that string.
\<close>

fun keep_others :: "json list \<Rightarrow> string \<Rightarrow> exn + json list" where
  "keep_others [] identifier = Inr []"
| "keep_others (s # ss) identifier =
     (case dict_get s ''identifier'' of
        Inl e \<Rightarrow> Inl e
      | Inr v \<Rightarrow>
          (case keep_others ss identifier of
             Inl e \<Rightarrow> Inl e
           | Inr rest \<Rightarrow> Inr (if v \<noteq> JStr identifier then s # rest else rest)))"

text \<open>
  \<^verbatim>\<open>next((s for s in sessions if s.get("identifier") == identifier), None)\<close> (line 173):
  the scan stops at the first match and never looks at what follows it.
\<close>

fun first_match :: "json list \<Rightarrow> string \<Rightarrow> exn + json option" where
  "first_match [] identifier = Inr None"
| "first_match (s # ss) identifier =
     (case dict_get s ''identifier'' of
        Inl e \<Rightarrow> Inl e
      | Inr v \<Rightarrow> if v = JStr identifier then Inr (Some s) else first_match ss identifier)"

text \<open>\<^verbatim>\<open>[s.get("identifier", d) for s in sessions]\<close> (lines 178 and 207).\<close>

fun identifiers_of :: "json list \<Rightarrow> json \<Rightarrow> exn + json list" where
  "identifiers_of [] d = Inr []"
| "identifiers_of (s # ss) d =
     (case dict_get_default s ''identifier'' d of
        Inl e \<Rightarrow> Inl e
      | Inr v \<Rightarrow>
          (case identifiers_of ss d of
             Inl e \<Rightarrow> Inl e
           | Inr rest \<Rightarrow> Inr (v # rest)))"

subsection \<open>The module\<close>

text \<open>
  \<^verbatim>\<open>_DEFAULT_SESSION_FILE\<close> and \<^verbatim>\<open>_session_file\<close>: an absent or empty path gives the
  default. Paths are taken as \<^verbatim>\<open>pathlib\<close> prints them.
\<close>

definition default_session_file :: "('cfg, 'login) env \<Rightarrow> path" where
  "default_session_file E = home E @ ''/.config/spotapi/session.json''"

definition session_file :: "('cfg, 'login) env \<Rightarrow> path option \<Rightarrow> path" where
  "session_file E p =
     (case p of
        None \<Rightarrow> default_session_file E
      | Some q \<Rightarrow> if q = [] then default_session_file E else q)"

text \<open>The record that \<^verbatim>\<open>setup\<close> builds (lines 97 to 106).\<close>

definition session_data :: "string \<Rightarrow> string \<Rightarrow> string \<Rightarrow> json" where
  "session_data identifier sp_dc sp_key =
     JObj [(''identifier'', JStr identifier),
           (''password'', JStr []),
           (''cookies'', JObj [(''sp_dc'', JStr sp_dc), (''sp_key'', JStr sp_key)])]"

definition load_missing_msg :: "path \<Rightarrow> string" where
  "load_missing_msg f =
     ''No session file found at '' @ f @ ''. '' @
     ''Run SpotifySession.setup('' @ [squote] @ ''your_sp_dc'' @ [squote] @ '') first.''"

definition load_absent_msg :: "string \<Rightarrow> json list \<Rightarrow> string" where
  "load_absent_msg identifier available =
     ''Session '' @ [squote] @ identifier @ [squote] @ '' not found. '' @
     ''Available sessions: '' @ py_repr (JArr available)"

text \<open>\<^verbatim>\<open>SpotifySession.load\<close> (lines 162 to 187).\<close>

definition load ::
  "('cfg, 'login) env \<Rightarrow> state \<Rightarrow> string \<Rightarrow> path option \<Rightarrow> 'cfg option \<Rightarrow> exn + 'login" where
  "load E st identifier p cfg =
     (let f = session_file E p in
      case files st f of
        Missing \<Rightarrow> Inl (FileNotFoundError (load_missing_msg f))
      | Invalid \<Rightarrow> Inl JSONDecodeError
      | Content sessions \<Rightarrow>
          (case py_iter sessions of
             Inl e \<Rightarrow> Inl e
           | Inr ss \<Rightarrow>
               (case first_match ss identifier of
                  Inl e \<Rightarrow> Inl e
                | Inr None \<Rightarrow>
                    (case identifiers_of ss JNull of
                       Inl e \<Rightarrow> Inl e
                     | Inr available \<Rightarrow> Inl (KeyError (load_absent_msg identifier available)))
                | Inr (Some m) \<Rightarrow>
                    from_cookies E m (case cfg of None \<Rightarrow> noop_config E | Some c \<Rightarrow> c))))"

definition saved_msg :: "string \<Rightarrow> path \<Rightarrow> string" where
  "saved_msg identifier f =
     ''Session '' @ [squote] @ identifier @ [squote] @ '' saved to: '' @ f"

text \<open>
  The merge of \<^verbatim>\<open>setup\<close> (lines 112 to 120): the \<^verbatim>\<open>except\<close> clause catches the decode
  error only, so an error of the comprehension leaves the function.
\<close>

definition merge_existing :: "disk_file \<Rightarrow> string \<Rightarrow> exn + json list" where
  "merge_existing fl identifier =
     (case fl of
        Missing \<Rightarrow> Inr []
      | Invalid \<Rightarrow> Inr []
      | Content v \<Rightarrow>
          (case py_iter v of
             Inl e \<Rightarrow> Inl e
           | Inr ss \<Rightarrow> keep_others ss identifier))"

text \<open>
  \<^verbatim>\<open>SpotifySession.setup\<close> (lines 94 to 128): write, print, then \<^verbatim>\<open>load\<close> with the
  default configuration. The result is the state left behind and what the call returns
  or raises.
\<close>

definition session_setup ::
  "('cfg, 'login) env \<Rightarrow> state \<Rightarrow> string \<Rightarrow> string \<Rightarrow> string \<Rightarrow> path option
     \<Rightarrow> state \<times> (exn + 'login)" where
  "session_setup E st sp_dc sp_key identifier p =
     (let sp_dc' = strip sp_dc;
          sp_key' = strip sp_key;
          new = [session_data identifier sp_dc' sp_key'];
          f = session_file E p
      in case merge_existing (files st f) identifier of
           Inl e \<Rightarrow> (st, Inl e)
         | Inr existing \<Rightarrow>
             (let st1 = st\<lparr>files := (files st)(f := Content (JArr (existing @ new)))\<rparr>;
                  st2 = st1\<lparr>stdout := stdout st1 @ [saved_msg identifier f]\<rparr>
              in (st2, load E st2 identifier p None)))"

text \<open>\<^verbatim>\<open>SpotifySession.list_sessions\<close> (lines 199 to 207).\<close>

definition list_sessions :: "('cfg, 'login) env \<Rightarrow> state \<Rightarrow> path option \<Rightarrow> exn + json list" where
  "list_sessions E st p =
     (case files st (session_file E p) of
        Missing \<Rightarrow> Inr []
      | Invalid \<Rightarrow> Inl JSONDecodeError
      | Content sessions \<Rightarrow>
          (case py_iter sessions of
             Inl e \<Rightarrow> Inl e
           | Inr ss \<Rightarrow> identifiers_of ss (JStr ''?'')))"

definition remove_missing_msg :: "path \<Rightarrow> string" where
  "remove_missing_msg f = ''No session file found at '' @ f @ ''.''"

definition remove_absent_msg :: "string \<Rightarrow> string" where
  "remove_absent_msg identifier =
     ''Session '' @ [squote] @ identifier @ [squote] @ '' not found.''"

definition removed_msg :: "string \<Rightarrow> path \<Rightarrow> string" where
  "removed_msg identifier f =
     ''Session '' @ [squote] @ identifier @ [squote] @ '' removed from '' @ f @ ''.''"

text \<open>
  \<^verbatim>\<open>SpotifySession.remove\<close> (lines 219 to 235). \<^verbatim>\<open>len(sessions)\<close> is the number of
  elements the iteration yields.
\<close>

definition remove ::
  "('cfg, 'login) env \<Rightarrow> state \<Rightarrow> string \<Rightarrow> path option \<Rightarrow> state \<times> (exn + unit)" where
  "remove E st identifier p =
     (let f = session_file E p in
      case files st f of
        Missing \<Rightarrow> (st, Inl (FileNotFoundError (remove_missing_msg f)))
      | Invalid \<Rightarrow> (st, Inl JSONDecodeError)
      | Content sessions \<Rightarrow>
          (case py_iter sessions of
             Inl e \<Rightarrow> (st, Inl e)
           | Inr ss \<Rightarrow>
               (case keep_others ss identifier of
                  Inl e \<Rightarrow> (st, Inl e)
                | Inr new_sessions \<Rightarrow>
                    if length new_sessions = length ss
                    then (st, Inl (KeyError (remove_absent_msg identifier)))
                    else
                      (let st1 = st\<lparr>files := (files st)(f := Content (JArr new_sessions))\<rparr>
                       in (st1\<lparr>stdout := stdout st1 @ [removed_msg identifier f]\<rparr>,
                           Inr ())))))"

subsection \<open>Vocabulary of the properties\<close>

text \<open>A record of the store is a JSON object.\<close>

fun is_record :: "json \<Rightarrow> bool" where
  "is_record (JObj kvs) = True"
| "is_record v = False"

text \<open>The record's \<^verbatim>\<open>identifier\<close> field is the string \<open>i\<close>.\<close>

definition has_identifier :: "string \<Rightarrow> json \<Rightarrow> bool" where
  "has_identifier i r = (dict_get r ''identifier'' = Inr (JStr i))"

text \<open>The value under \<^verbatim>\<open>identifier\<close> in an object, \<open>d\<close> when the key is absent.\<close>

fun identifier_or :: "json \<Rightarrow> json \<Rightarrow> json" where
  "identifier_or d (JObj kvs) = (case map_of kvs ''identifier'' of None \<Rightarrow> d | Some v \<Rightarrow> v)"
| "identifier_or d v = d"

fun has_identifier_key :: "json \<Rightarrow> bool" where
  "has_identifier_key (JObj kvs) = (map_of kvs ''identifier'' \<noteq> None)"
| "has_identifier_key v = False"

text \<open>
  The file states of the store's data model: no file, a file that does not decode, or
  an array of objects.
\<close>

fun store_ok :: "disk_file \<Rightarrow> bool" where
  "store_ok Missing = True"
| "store_ok Invalid = True"
| "store_ok (Content (JArr xs)) = list_all is_record xs"
| "store_ok (Content v) = False"

text \<open>The records that \<^verbatim>\<open>setup\<close> starts from in such a state.\<close>

fun records_of :: "disk_file \<Rightarrow> json list" where
  "records_of (Content (JArr xs)) = xs"
| "records_of fl = []"

subsection \<open>Sample collaborators and states\<close>

text \<open>A factory that returns the record it was given, and one that always fails.\<close>

definition echo_env :: "(unit, json) env" where
  "echo_env = \<lparr>home = ''/home/u'', from_cookies = (\<lambda>m c. Inr m), noop_config = ()\<rparr>"

definition failing_env :: "(unit, json) env" where
  "failing_env =
     \<lparr>home = ''/home/u'', from_cookies = (\<lambda>m c. Inl (OtherError ''login failed'')),
      noop_config = ()\<rparr>"

definition disk_with :: "disk_file \<Rightarrow> state" where
  "disk_with fl = \<lparr>files = (\<lambda>q. if q = ''s.json'' then fl else Missing), stdout = []\<rparr>"

definition rec_y :: json where
  "rec_y = session_data ''y'' ''dc_y'' ''key_y''"

definition rec_a_old :: json where
  "rec_a_old = session_data ''a'' ''dc_old'' ''key_old''"

text \<open>Two calls of \<^verbatim>\<open>setup\<close> in a row for one identifier; the state left behind.\<close>

definition save_twice ::
  "('cfg, 'login) env \<Rightarrow> state \<Rightarrow> string \<Rightarrow> string \<Rightarrow> string \<Rightarrow> string \<Rightarrow> string
     \<Rightarrow> path option \<Rightarrow> state" where
  "save_twice E st a b a' b' i p =
     fst (session_setup E (fst (session_setup E st a b i p)) a' b' i p)"

definition rec_no_id :: json where
  "rec_no_id = JObj [(''password'', JStr [])]"

definition rec_a_dup :: json where
  "rec_a_dup = session_data ''a'' ''dc_dup'' ''key_dup''"

section \<open>Properties\<close>

subsection \<open>How the comprehensions behave on records\<close>

lemma dict_get_default_record:
  "is_record r \<Longrightarrow> dict_get_default r ''identifier'' d = Inr (identifier_or d r)"
  by (cases r) simp_all

lemma dict_get_Inr_record: "dict_get r k = Inr v \<Longrightarrow> is_record r"
  by (cases r) (simp_all add: dict_get_def)

lemma keep_others_records:
  "list_all is_record xs \<Longrightarrow> keep_others xs i = Inr (filter (\<lambda>r. \<not> has_identifier i r) xs)"
proof (induction xs)
  case Nil
  then show ?case by simp
next
  case (Cons r xs)
  then have "is_record r" by simp
  then obtain v where v: "dict_get r ''identifier'' = Inr v"
    by (cases r) (simp_all add: dict_get_def)
  with Cons show ?case by (simp add: has_identifier_def)
qed

lemma keep_others_Inr:
  "keep_others xs i = Inr ys \<Longrightarrow> list_all is_record xs \<and> ys = filter (\<lambda>r. \<not> has_identifier i r) xs"
proof (induction xs arbitrary: ys)
  case Nil
  then show ?case by simp
next
  case (Cons r xs)
  then show ?case
    by (auto simp: has_identifier_def dict_get_Inr_record split: sum.splits if_splits)
qed

lemma identifiers_of_records:
  "list_all is_record xs \<Longrightarrow> identifiers_of xs d = Inr (map (identifier_or d) xs)"
  by (induction xs) (simp_all add: dict_get_default_record)

lemma first_match_skip:
  "list_all is_record pre \<Longrightarrow> \<forall>q \<in> set pre. \<not> has_identifier i q \<Longrightarrow>
   first_match (pre @ rest) i = first_match rest i"
proof (induction pre)
  case Nil
  then show ?case by simp
next
  case (Cons r pre)
  then have "is_record r" by simp
  then obtain v where v: "dict_get r ''identifier'' = Inr v"
    by (cases r) (simp_all add: dict_get_def)
  with Cons show ?case by (simp add: has_identifier_def)
qed

lemma first_match_hit:
  "has_identifier i r \<Longrightarrow> first_match (r # post) i = Inr (Some r)"
  by (simp add: has_identifier_def)

lemma first_match_none:
  "list_all is_record xs \<Longrightarrow> \<forall>q \<in> set xs. \<not> has_identifier i q \<Longrightarrow> first_match xs i = Inr None"
  using first_match_skip [of xs i "[]"] by simp

lemma has_identifier_session_data: "has_identifier i (session_data i a b)"
  by (simp add: has_identifier_def session_data_def dict_get_def)

lemma has_identifier_session_data_iff: "has_identifier j (session_data i a b) \<longleftrightarrow> j = i"
  by (auto simp add: has_identifier_def session_data_def dict_get_def)

lemma is_record_session_data: "is_record (session_data i a b)"
  by (simp add: session_data_def)

lemma merge_existing_ok:
  "store_ok fl \<Longrightarrow> merge_existing fl i = Inr (filter (\<lambda>r. \<not> has_identifier i r) (records_of fl))"
  by (induction fl rule: store_ok.induct) (simp_all add: merge_existing_def keep_others_records)


lemma merge_existing_Inr:
  assumes "merge_existing fl i = Inr ex"
  shows "list_all is_record ex \<and> (\<forall>q \<in> set ex. \<not> has_identifier i q)"
proof (cases fl)
  case (Content v)
  with assms obtain ss where "keep_others ss i = Inr ex"
    by (auto simp: merge_existing_def split: sum.splits)
  from keep_others_Inr [OF this] show ?thesis
    by (auto simp: list_all_iff)
qed (use assms in \<open>simp_all add: merge_existing_def\<close>)

lemma load_written:
  assumes "files st (session_file E p) = Content (JArr (ex @ r # post))"
    and "list_all is_record ex" and "\<forall>q \<in> set ex. \<not> has_identifier i q"
    and "has_identifier i r"
  shows "load E st i p cfg = from_cookies E r (case cfg of None \<Rightarrow> noop_config E | Some c \<Rightarrow> c)"
proof -
  have "first_match (ex @ r # post) i = Inr (Some r)"
    using assms(2,3) first_match_hit [OF assms(4), of post]
    by (simp add: first_match_skip del: first_match.simps)
  with assms(1) show ?thesis
    by (simp add: load_def)
qed

lemma setup_after_merge:
  assumes "merge_existing (files st (session_file E p)) i = Inr ex"
  shows "session_setup E st a b i p =
           (st\<lparr>files := (files st)(session_file E p :=
                  Content (JArr (ex @ [session_data i (strip a) (strip b)]))),
               stdout := stdout st @ [saved_msg i (session_file E p)]\<rparr>,
            from_cookies E (session_data i (strip a) (strip b)) (noop_config E))"
proof -
  let ?f = "session_file E p"
  let ?r = "session_data i (strip a) (strip b)"
  let ?st = "st\<lparr>files := (files st)(?f := Content (JArr (ex @ [?r]))),
               stdout := stdout st @ [saved_msg i ?f]\<rparr>"
  from merge_existing_Inr [OF assms]
  have ex: "list_all is_record ex" "\<forall>q \<in> set ex. \<not> has_identifier i q" by simp_all
  have "files ?st ?f = Content (JArr (ex @ ?r # []))" by simp
  from load_written [OF this ex has_identifier_session_data]
  have "load E ?st i p None = from_cookies E ?r (noop_config E)" by simp
  with assms show ?thesis
    by (simp add: session_setup_def Let_def)
qed

lemma setup_merge_fails:
  "merge_existing (files st (session_file E p)) i = Inl e \<Longrightarrow>
   session_setup E st a b i p = (st, Inl e)"
  by (simp add: session_setup_def Let_def)

subsection \<open>Round trip of \<^verbatim>\<open>setup\<close> and \<^verbatim>\<open>load\<close>\<close>


text \<open>
  C1. From a store that is absent, undecodable or an array of objects, \<^verbatim>\<open>setup\<close> returns
  what \<^verbatim>\<open>load\<close> of the same identifier and path gives on the state it leaves behind, and
  that is the client factory applied to the record with the identifier, the empty
  password and the two stripped cookies, under the silent configuration.
\<close>

theorem setup_round_trip:
  assumes "store_ok (files st (session_file E p))"
  shows "snd (session_setup E st a b i p) =
           load E (fst (session_setup E st a b i p)) i p None \<and>
         load E (fst (session_setup E st a b i p)) i p None =
           from_cookies E
             (JObj [(''identifier'', JStr i),
                    (''password'', JStr []),
                    (''cookies'', JObj [(''sp_dc'', JStr (strip a)), (''sp_key'', JStr (strip b))])])
             (noop_config E)"
proof -
  let ?f = "session_file E p"
  let ?ex = "filter (\<lambda>r. \<not> has_identifier i r) (records_of (files st ?f))"
  have m: "merge_existing (files st ?f) i = Inr ?ex"
    using assms by (rule merge_existing_ok)
  have ret: "snd (session_setup E st a b i p) =
               load E (fst (session_setup E st a b i p)) i p None"
    using m by (simp add: session_setup_def Let_def)
  have "snd (session_setup E st a b i p) =
          from_cookies E (session_data i (strip a) (strip b)) (noop_config E)"
    by (simp add: setup_after_merge [OF m])
  with ret show ?thesis
    by (simp add: session_data_def)
qed

theorem setup_round_trip_witness:
  "store_ok (files (disk_with (Content (JArr [rec_a_old, rec_y])))
               (session_file echo_env (Some ''s.json''))) \<and>
   snd (session_setup echo_env (disk_with (Content (JArr [rec_a_old, rec_y])))
          ''  dc_new '' '' key_new'' ''a'' (Some ''s.json'')) =
     Inr (JObj [(''identifier'', JStr ''a''),
                (''password'', JStr []),
                (''cookies'', JObj [(''sp_dc'', JStr ''dc_new''), (''sp_key'', JStr ''key_new'')])])"
  using setup_round_trip [of "disk_with (Content (JArr [rec_a_old, rec_y]))" echo_env
      "Some ''s.json''" "''  dc_new ''" "'' key_new''" "''a''"]
  by (simp add: disk_with_def session_file_def echo_env_def rec_a_old_def rec_y_def
      session_data_def strip_def py_isspace_def)

subsection \<open>\<^verbatim>\<open>setup\<close> on a file that is not a store\<close>

text \<open>
  C2, as stated, fails. A file that decodes, but not to an array of objects, is not
  tolerated: here the file holds one bare object, the comprehension of line 118 meets
  its keys, \<^verbatim>\<open>AttributeError\<close> is not among the caught exceptions, and the file stays
  as it was.
\<close>

theorem setup_single_object_file_raises:
  "session_setup echo_env (disk_with (Content rec_a_old)) ''dc'' ''key'' ''b'' (Some ''s.json'') =
     (disk_with (Content rec_a_old), Inl AttributeError)"
  by (simp add: session_setup_def merge_existing_def disk_with_def session_file_def
      rec_a_old_def session_data_def dict_get_def)

text \<open>
  C2, amended. When the file does not decode, \<^verbatim>\<open>setup\<close> raises nothing of its own:
  it writes the new record alone, prints the confirmation, and its outcome is that of
  the client factory on the new record.
\<close>

theorem setup_undecodable_file:
  assumes "files st (session_file E p) = Invalid"
  shows "session_setup E st a b i p =
           (st\<lparr>files := (files st)(session_file E p :=
                  Content (JArr [session_data i (strip a) (strip b)])),
               stdout := stdout st @ [saved_msg i (session_file E p)]\<rparr>,
            from_cookies E (session_data i (strip a) (strip b)) (noop_config E))"
proof -
  have "merge_existing (files st (session_file E p)) i = Inr []"
    using assms by (simp add: merge_existing_def)
  from setup_after_merge [OF this] show ?thesis by simp
qed

theorem setup_undecodable_file_witness:
  "files (disk_with Invalid) (session_file echo_env (Some ''s.json'')) = Invalid \<and>
   files (fst (session_setup echo_env (disk_with Invalid) ''dc '' '' key'' ''me'' (Some ''s.json'')))
     ''s.json'' = Content (JArr [session_data ''me'' ''dc'' ''key'']) \<and>
   snd (session_setup echo_env (disk_with Invalid) ''dc '' '' key'' ''me'' (Some ''s.json'')) =
     Inr (session_data ''me'' ''dc'' ''key'')"
  using setup_undecodable_file [of "disk_with Invalid" echo_env "Some ''s.json''"
      "''dc ''" "'' key''" "''me''"]
  by (simp add: disk_with_def session_file_def echo_env_def strip_def py_isspace_def)

subsection \<open>Saving one identifier twice\<close>

text \<open>
  C3, as stated for every file state and identifier, fails twice over. On a file that
  holds the number 42 both calls raise \<^verbatim>\<open>TypeError\<close> and nothing is written. On an
  array with a record that lacks the identifier field, saving the identifier
  \<^verbatim>\<open>"?"\<close> makes \<^verbatim>\<open>list_sessions\<close> report it twice, once as the placeholder.
\<close>

theorem save_twice_counterexample:
  "files (save_twice echo_env (disk_with (Content (JInt 42))) ''d1'' ''k1'' ''d2'' ''k2'' ''a''
            (Some ''s.json'')) ''s.json'' = Content (JInt 42) \<and>
   list_sessions echo_env
     (save_twice echo_env (disk_with (Content (JArr [rec_no_id]))) ''d1'' ''k1'' ''d2'' ''k2'' ''?''
        (Some ''s.json''))
     (Some ''s.json'') = Inr [JStr ''?'', JStr ''?'']"
  by (simp add: save_twice_def session_setup_def merge_existing_def disk_with_def
      session_file_def load_def list_sessions_def echo_env_def rec_no_id_def
      session_data_def dict_get_def Let_def)

lemma identifier_or_other:
  assumes "is_record r" and "\<not> has_identifier i r" and "i \<noteq> ''?'' \<or> has_identifier_key r"
  shows "identifier_or (JStr ''?'') r \<noteq> JStr i"
  using assms by (cases r) (auto simp: has_identifier_def dict_get_def split: option.splits)

lemma count_identifier_others:
  assumes "list_all is_record xs" and "\<forall>q \<in> set xs. \<not> has_identifier i q"
    and "i \<noteq> ''?'' \<or> list_all has_identifier_key xs"
  shows "count_list (map (identifier_or (JStr ''?'')) xs) (JStr i) = 0"
  using assms by (induction xs) (auto simp: identifier_or_other)

lemma list_sessions_records:
  assumes "files st (session_file E p) = Content (JArr xs)" and "list_all is_record xs"
  shows "list_sessions E st p = Inr (map (identifier_or (JStr ''?'')) xs)"
  using assms by (simp add: list_sessions_def identifiers_of_records)

lemma setup_state_ok:
  assumes "store_ok (files st (session_file E p))"
  shows "fst (session_setup E st a b i p) =
           st\<lparr>files := (files st)(session_file E p :=
                  Content (JArr (filter (\<lambda>r. \<not> has_identifier i r)
                                   (records_of (files st (session_file E p)))
                                 @ [session_data i (strip a) (strip b)]))),
               stdout := stdout st @ [saved_msg i (session_file E p)]\<rparr>"
  by (simp add: setup_after_merge [OF merge_existing_ok [OF assms]])

lemma records_of_store_ok: "store_ok fl \<Longrightarrow> list_all is_record (records_of fl)"
  by (induction fl rule: store_ok.induct) simp_all

text \<open>
  C3, amended. From a store that is absent, undecodable or an array of objects, two
  saves of one identifier leave the other records in their order followed by the second
  record, which is the only one with that identifier; \<^verbatim>\<open>list_sessions\<close> gives the
  others' identifiers and then this one, and it occurs exactly once when it is not the
  placeholder or every record had an identifier field.
\<close>

theorem save_twice_replaces:
  assumes "store_ok (files st (session_file E p))"
  shows "files (save_twice E st a b a' b' i p) (session_file E p) =
           Content (JArr (filter (\<lambda>r. \<not> has_identifier i r)
                            (records_of (files st (session_file E p)))
                          @ [session_data i (strip a') (strip b')])) \<and>
         filter (has_identifier i)
           (records_of (files (save_twice E st a b a' b' i p) (session_file E p))) =
           [session_data i (strip a') (strip b')] \<and>
         list_sessions E (save_twice E st a b a' b' i p) p =
           Inr (map (identifier_or (JStr ''?''))
                  (filter (\<lambda>r. \<not> has_identifier i r) (records_of (files st (session_file E p))))
                @ [JStr i]) \<and>
         (i \<noteq> ''?'' \<or> list_all has_identifier_key (records_of (files st (session_file E p))) \<longrightarrow>
          count_list
            (map (identifier_or (JStr ''?''))
               (filter (\<lambda>r. \<not> has_identifier i r) (records_of (files st (session_file E p))))
             @ [JStr i])
            (JStr i) = 1)"
proof -
  let ?f = "session_file E p"
  let ?xs = "records_of (files st ?f)"
  let ?others = "filter (\<lambda>r. \<not> has_identifier i r) ?xs"
  let ?st1 = "fst (session_setup E st a b i p)"
  let ?new = "session_data i (strip a') (strip b')"
  have recs: "list_all is_record ?xs"
    using assms by (rule records_of_store_ok)
  then have others: "list_all is_record ?others"
    by (simp add: list_all_iff)
  have f1: "files ?st1 ?f = Content (JArr (?others @ [session_data i (strip a) (strip b)]))"
    by (simp add: setup_state_ok [OF assms])
  then have ok1: "store_ok (files ?st1 ?f)"
    using others by (simp add: is_record_session_data)
  have again: "filter (\<lambda>r. \<not> has_identifier i r) (records_of (files ?st1 ?f)) = ?others"
    by (simp add: f1 has_identifier_session_data)
  have f2: "files (save_twice E st a b a' b' i p) ?f = Content (JArr (?others @ [?new]))"
    unfolding save_twice_def by (simp add: setup_state_ok [OF ok1] again)
  have one: "filter (has_identifier i) (?others @ [?new]) = [?new]"
    by (simp add: has_identifier_session_data)
  have "list_all is_record (?others @ [?new])"
    using others by (simp add: is_record_session_data)
  from list_sessions_records [OF f2 this]
  have ls: "list_sessions E (save_twice E st a b a' b' i p) p =
              Inr (map (identifier_or (JStr ''?'')) ?others @ [JStr i])"
    by (simp add: session_data_def)
  have cnt: "count_list (map (identifier_or (JStr ''?'')) ?others @ [JStr i]) (JStr i) = 1"
    if "i \<noteq> ''?'' \<or> list_all has_identifier_key ?xs"
  proof -
    from that have "i \<noteq> ''?'' \<or> list_all has_identifier_key ?others"
      by (auto simp: list_all_iff)
    with others have "count_list (map (identifier_or (JStr ''?'')) ?others) (JStr i) = 0"
      by (intro count_identifier_others) simp_all
    then show ?thesis by simp
  qed
  show ?thesis
    using f2 one ls cnt by simp
qed

theorem save_twice_replaces_witness:
  "store_ok (files (disk_with (Content (JArr [rec_a_old, rec_y])))
               (session_file echo_env (Some ''s.json''))) \<and>
   files (save_twice echo_env (disk_with (Content (JArr [rec_a_old, rec_y])))
            ''d1'' ''k1'' ''d2'' ''k2'' ''a'' (Some ''s.json'')) ''s.json'' =
     Content (JArr [rec_y, session_data ''a'' ''d2'' ''k2'']) \<and>
   list_sessions echo_env
     (save_twice echo_env (disk_with (Content (JArr [rec_a_old, rec_y])))
        ''d1'' ''k1'' ''d2'' ''k2'' ''a'' (Some ''s.json''))
     (Some ''s.json'') = Inr [JStr ''y'', JStr ''a'']"
  using save_twice_replaces [of "disk_with (Content (JArr [rec_a_old, rec_y]))" echo_env
      "Some ''s.json''" "''d1''" "''k1''" "''d2''" "''k2''" "''a''"]
  by (simp add: disk_with_def session_file_def rec_a_old_def rec_y_def
      session_data_def has_identifier_def dict_get_def strip_def py_isspace_def)

subsection \<open>Errors of \<^verbatim>\<open>load\<close>\<close>

lemma sublist_join:
  "x \<in> set xs \<Longrightarrow> sublist x (join sep xs)"
proof (induction sep xs rule: join.induct)
  case (1 sep)
  then show ?case by simp
next
  case (2 sep x')
  then show ?case by simp
next
  case (3 sep x' y ys)
  show ?case
  proof (cases "x = x'")
    case True
    then show ?thesis by (simp add: sublist_append_rightI)
  next
    case False
    with 3 have "sublist x (join sep (y # ys))" by simp
    then obtain ps ss where "join sep (y # ys) = ps @ x @ ss"
      by (auto simp: sublist_def)
    then have "join sep (x' # y # ys) = (x' @ sep @ ps) @ x @ ss"
      by simp
    then show ?thesis
      unfolding sublist_def by blast
  qed
qed

lemma sublist_load_absent_msg:
  assumes "v \<in> set available"
  shows "sublist (py_repr v) (load_absent_msg i available)"
proof -
  have "sublist (py_repr v) (join '', '' (map py_repr available))"
    using assms by (intro sublist_join) simp
  then obtain ps ss where "join '', '' (map py_repr available) = ps @ py_repr v @ ss"
    by (auto simp: sublist_def)
  then have "load_absent_msg i available =
      (''Session '' @ [squote] @ i @ [squote] @ '' not found. '' @
       ''Available sessions: '' @ ''['' @ ps) @ py_repr v @ (ss @ '']'')"
    by (simp add: load_absent_msg_def)
  then show ?thesis
    unfolding sublist_def by blast
qed

text \<open>
  C4. Without a file \<^verbatim>\<open>load\<close> raises \<^verbatim>\<open>FileNotFoundError\<close>, whose message
  contains the path and the advice to run \<^verbatim>\<open>SpotifySession.setup\<close>; on an array of
  objects none of which has the identifier it raises \<^verbatim>\<open>KeyError\<close>, whose message
  contains the \<^verbatim>\<open>repr\<close> of every record's identifier.
\<close>

theorem load_errors:
  "(files st (session_file E p) = Missing \<longrightarrow>
      load E st i p cfg = Inl (FileNotFoundError (load_missing_msg (session_file E p))) \<and>
      sublist (session_file E p) (load_missing_msg (session_file E p)) \<and>
      sublist ''Run SpotifySession.setup('' (load_missing_msg (session_file E p))) \<and>
   (files st (session_file E p) = Content (JArr xs) \<and> list_all is_record xs \<and>
    (\<forall>r \<in> set xs. \<not> has_identifier i r) \<longrightarrow>
      load E st i p cfg = Inl (KeyError (load_absent_msg i (map (identifier_or JNull) xs))) \<and>
      (\<forall>r \<in> set xs. sublist (py_repr (identifier_or JNull r))
                        (load_absent_msg i (map (identifier_or JNull) xs))))"
proof (intro conjI impI)
  assume "files st (session_file E p) = Missing"
  then show "load E st i p cfg = Inl (FileNotFoundError (load_missing_msg (session_file E p)))"
    by (simp add: load_def)
next
  have "load_missing_msg (session_file E p) =
          ''No session file found at '' @ session_file E p @
          (''. '' @ ''Run SpotifySession.setup('' @ [squote] @ ''your_sp_dc'' @ [squote] @ '') first.'')"
    by (simp add: load_missing_msg_def)
  then show "sublist (session_file E p) (load_missing_msg (session_file E p))"
    unfolding sublist_def by blast
next
  have "load_missing_msg (session_file E p) =
          (''No session file found at '' @ session_file E p @ ''. '') @
          ''Run SpotifySession.setup('' @ ([squote] @ ''your_sp_dc'' @ [squote] @ '') first.'')"
    by (simp add: load_missing_msg_def)
  then show "sublist ''Run SpotifySession.setup('' (load_missing_msg (session_file E p))"
    unfolding sublist_def by blast
next
  assume h: "files st (session_file E p) = Content (JArr xs) \<and> list_all is_record xs \<and>
    (\<forall>r \<in> set xs. \<not> has_identifier i r)"
  then have "first_match xs i = Inr None"
    by (simp add: first_match_none)
  with h show "load E st i p cfg =
      Inl (KeyError (load_absent_msg i (map (identifier_or JNull) xs)))"
    by (simp add: load_def identifiers_of_records)
next
  show "\<forall>r \<in> set xs. sublist (py_repr (identifier_or JNull r))
                        (load_absent_msg i (map (identifier_or JNull) xs))"
    by (simp add: sublist_load_absent_msg)
qed

theorem load_errors_witness:
  "files (disk_with Missing) (session_file echo_env (Some ''s.json'')) = Missing \<and>
   load echo_env (disk_with Missing) ''a'' (Some ''s.json'') None =
     Inl (FileNotFoundError
            (''No session file found at s.json. Run SpotifySession.setup('' @ [squote] @
             ''your_sp_dc'' @ [squote] @ '') first.'')) \<and>
   (files (disk_with (Content (JArr [rec_a_old, rec_y]))) (session_file echo_env (Some ''s.json''))
      = Content (JArr [rec_a_old, rec_y]) \<and>
    list_all is_record [rec_a_old, rec_y] \<and>
    \<not> has_identifier ''z'' rec_a_old \<and> \<not> has_identifier ''z'' rec_y) \<and>
   load echo_env (disk_with (Content (JArr [rec_a_old, rec_y]))) ''z'' (Some ''s.json'') None =
     Inl (KeyError
            (''Session '' @ [squote] @ ''z'' @ [squote] @ '' not found. Available sessions: ['' @
             [squote] @ ''a'' @ [squote] @ '', '' @ [squote] @ ''y'' @ [squote] @ '']''))"
proof -
  let ?p = "Some ''s.json''"
  let ?full = "disk_with (Content (JArr [rec_a_old, rec_y]))"
  have m: "files (disk_with Missing) (session_file echo_env ?p) = Missing"
    by code_simp
  have k: "files ?full (session_file echo_env ?p) = Content (JArr [rec_a_old, rec_y]) \<and>
      list_all is_record [rec_a_old, rec_y] \<and>
      (\<forall>r \<in> set [rec_a_old, rec_y]. \<not> has_identifier ''z'' r)"
    by code_simp
  have missing_text: "load_missing_msg (session_file echo_env ?p) =
      ''No session file found at s.json. Run SpotifySession.setup('' @ [squote] @
      ''your_sp_dc'' @ [squote] @ '') first.''"
    by code_simp
  have absent_text: "load_absent_msg ''z'' (map (identifier_or JNull) [rec_a_old, rec_y]) =
      ''Session '' @ [squote] @ ''z'' @ [squote] @ '' not found. Available sessions: ['' @
      [squote] @ ''a'' @ [squote] @ '', '' @ [squote] @ ''y'' @ [squote] @ '']''"
    by code_simp
  from load_errors [where st = "disk_with Missing" and E = echo_env and p = ?p
      and i = "''a''" and cfg = None and xs = "[]"] m
  have "load echo_env (disk_with Missing) ''a'' ?p None =
      Inl (FileNotFoundError (load_missing_msg (session_file echo_env ?p)))"
    by blast
  then have r1: "load echo_env (disk_with Missing) ''a'' ?p None =
     Inl (FileNotFoundError
            (''No session file found at s.json. Run SpotifySession.setup('' @ [squote] @
             ''your_sp_dc'' @ [squote] @ '') first.''))"
    by (simp only: missing_text)
  from load_errors [where st = ?full and E = echo_env and p = ?p
      and xs = "[rec_a_old, rec_y]" and i = "''z''" and cfg = None] k
  have "load echo_env ?full ''z'' ?p None =
      Inl (KeyError (load_absent_msg ''z'' (map (identifier_or JNull) [rec_a_old, rec_y])))"
    by blast
  then have r2: "load echo_env ?full ''z'' ?p None =
     Inl (KeyError
            (''Session '' @ [squote] @ ''z'' @ [squote] @ '' not found. Available sessions: ['' @
             [squote] @ ''a'' @ [squote] @ '', '' @ [squote] @ ''y'' @ [squote] @ '']''))"
    by (simp only: absent_text)
  from k have k': "\<not> has_identifier ''z'' rec_a_old \<and> \<not> has_identifier ''z'' rec_y"
    by simp
  from m r1 k k' r2 show ?thesis by blast
qed

subsection \<open>\<^verbatim>\<open>remove\<close>\<close>

lemma length_filter_eq_iff:
  "length (filter P xs) = length xs \<longleftrightarrow> (\<forall>x \<in> set xs. P x)"
proof (induction xs)
  case Nil
  then show ?case by simp
next
  case (Cons x xs)
  have "length (filter P xs) \<le> length xs" by (rule length_filter_le)
  then have "length (filter P xs) \<noteq> Suc (length xs)" by arith
  with Cons show ?case by simp
qed

text \<open>
  C5. Without a file \<^verbatim>\<open>remove\<close> raises \<^verbatim>\<open>FileNotFoundError\<close>. On an array of
  objects the length test of line 229 holds exactly when no record has the identifier;
  then \<^verbatim>\<open>KeyError\<close> is raised and the state is unchanged; otherwise the file is
  rewritten with the records of other identifiers, in order, and the message is
  printed.
\<close>

theorem remove_behaviour:
  "(files st (session_file E p) = Missing \<longrightarrow>
      remove E st i p = (st, Inl (FileNotFoundError (remove_missing_msg (session_file E p))))) \<and>
   (files st (session_file E p) = Content (JArr xs) \<and> list_all is_record xs \<longrightarrow>
      (length (filter (\<lambda>r. \<not> has_identifier i r) xs) = length xs
         \<longleftrightarrow> (\<forall>r \<in> set xs. \<not> has_identifier i r)) \<and>
      remove E st i p =
        (if \<forall>r \<in> set xs. \<not> has_identifier i r
         then (st, Inl (KeyError (remove_absent_msg i)))
         else (st\<lparr>files := (files st)(session_file E p :=
                      Content (JArr (filter (\<lambda>r. \<not> has_identifier i r) xs))),
                  stdout := stdout st @ [removed_msg i (session_file E p)]\<rparr>,
               Inr ())))"
proof (intro conjI impI)
  assume "files st (session_file E p) = Missing"
  then show "remove E st i p =
      (st, Inl (FileNotFoundError (remove_missing_msg (session_file E p))))"
    by (simp add: remove_def)
next
  show "length (filter (\<lambda>r. \<not> has_identifier i r) xs) = length xs
         \<longleftrightarrow> (\<forall>r \<in> set xs. \<not> has_identifier i r)"
    by (rule length_filter_eq_iff)
next
  assume h: "files st (session_file E p) = Content (JArr xs) \<and> list_all is_record xs"
  let ?new = "filter (\<lambda>r. \<not> has_identifier i r) xs"
  have ko: "keep_others xs i = Inr ?new"
    using h by (simp add: keep_others_records)
  have run: "remove E st i p =
      (if length ?new = length xs
       then (st, Inl (KeyError (remove_absent_msg i)))
       else (st\<lparr>files := (files st)(session_file E p := Content (JArr ?new)),
                stdout := stdout st @ [removed_msg i (session_file E p)]\<rparr>,
             Inr ()))"
    using h ko by (simp add: remove_def Let_def)
  show "remove E st i p =
        (if \<forall>r \<in> set xs. \<not> has_identifier i r
         then (st, Inl (KeyError (remove_absent_msg i)))
         else (st\<lparr>files := (files st)(session_file E p :=
                      Content (JArr (filter (\<lambda>r. \<not> has_identifier i r) xs))),
                  stdout := stdout st @ [removed_msg i (session_file E p)]\<rparr>,
               Inr ()))"
    unfolding run length_filter_eq_iff ..
qed

theorem remove_behaviour_witness:
  "files (disk_with Missing) (session_file echo_env (Some ''s.json'')) = Missing \<and>
   remove echo_env (disk_with Missing) ''a'' (Some ''s.json'') =
     (disk_with Missing, Inl (FileNotFoundError ''No session file found at s.json.'')) \<and>
   (files (disk_with (Content (JArr [rec_a_old, rec_y]))) (session_file echo_env (Some ''s.json''))
      = Content (JArr [rec_a_old, rec_y]) \<and> list_all is_record [rec_a_old, rec_y]) \<and>
   remove echo_env (disk_with (Content (JArr [rec_a_old, rec_y]))) ''z'' (Some ''s.json'') =
     (disk_with (Content (JArr [rec_a_old, rec_y])),
      Inl (KeyError (''Session '' @ [squote] @ ''z'' @ [squote] @ '' not found.''))) \<and>
   snd (remove echo_env (disk_with (Content (JArr [rec_a_old, rec_y]))) ''a'' (Some ''s.json'')) =
     Inr () \<and>
   files (fst (remove echo_env (disk_with (Content (JArr [rec_a_old, rec_y]))) ''a''
                 (Some ''s.json''))) ''s.json'' = Content (JArr [rec_y])"
proof -
  let ?p = "Some ''s.json''"
  let ?full = "disk_with (Content (JArr [rec_a_old, rec_y]))"
  have m: "files (disk_with Missing) (session_file echo_env ?p) = Missing"
    by code_simp
  have k: "files ?full (session_file echo_env ?p) = Content (JArr [rec_a_old, rec_y]) \<and>
      list_all is_record [rec_a_old, rec_y]"
    by code_simp
  have f: "session_file echo_env ?p = ''s.json''"
    by code_simp
  have no_z: "\<forall>r \<in> set [rec_a_old, rec_y]. \<not> has_identifier ''z'' r"
    by code_simp
  have some_a: "\<not> (\<forall>r \<in> set [rec_a_old, rec_y]. \<not> has_identifier ''a'' r)"
    by code_simp
  have rest: "filter (\<lambda>r. \<not> has_identifier ''a'' r) [rec_a_old, rec_y] = [rec_y]"
    by code_simp
  have t1: "remove_missing_msg ''s.json'' = ''No session file found at s.json.''"
    by code_simp
  have t2: "remove_absent_msg ''z'' = ''Session '' @ [squote] @ ''z'' @ [squote] @ '' not found.''"
    by code_simp
  note miss = remove_behaviour [where st = "disk_with Missing" and E = echo_env and p = ?p
      and i = "''a''" and xs = "[]", THEN conjunct1, THEN mp, OF m]
  note absent = remove_behaviour [where st = ?full and E = echo_env and p = ?p
      and xs = "[rec_a_old, rec_y]" and i = "''z''", THEN conjunct2, THEN mp, OF k,
      THEN conjunct2]
  note present = remove_behaviour [where st = ?full and E = echo_env and p = ?p
      and xs = "[rec_a_old, rec_y]" and i = "''a''", THEN conjunct2, THEN mp, OF k,
      THEN conjunct2]
  have r1: "remove echo_env (disk_with Missing) ''a'' ?p =
      (disk_with Missing, Inl (FileNotFoundError ''No session file found at s.json.''))"
    unfolding miss f t1 by (rule refl)
  have r2: "remove echo_env ?full ''z'' ?p =
      (?full, Inl (KeyError (''Session '' @ [squote] @ ''z'' @ [squote] @ '' not found.'')))"
    unfolding absent if_P [OF no_z] t2 by (rule refl)
  have r3: "remove echo_env ?full ''a'' ?p =
      (?full\<lparr>files := (files ?full)(''s.json'' := Content (JArr [rec_y])),
              stdout := stdout ?full @ [removed_msg ''a'' ''s.json'']\<rparr>, Inr ())"
    unfolding present if_not_P [OF some_a] f rest by (rule refl)
  have r3a: "snd (remove echo_env ?full ''a'' ?p) = Inr ()"
    by (simp only: r3 snd_conv)
  have r3b: "files (fst (remove echo_env ?full ''a'' ?p)) ''s.json'' = Content (JArr [rec_y])"
    by (simp add: r3)
  from m r1 k r2 r3a r3b show ?thesis by blast
qed

subsection \<open>\<^verbatim>\<open>list_sessions\<close>\<close>

text \<open>
  C6. Without a file \<^verbatim>\<open>list_sessions\<close> returns the empty list. On an array of
  objects it returns, in file order, each record's identifier value, and the
  placeholder \<^verbatim>\<open>"?"\<close> for a record without the field. After saving two different
  identifiers, one after the other, where there was no file, it returns the first and
  then the second.
\<close>

theorem list_sessions_behaviour:
  "(files st (session_file E p) = Missing \<longrightarrow> list_sessions E st p = Inr []) \<and>
   (files st (session_file E p) = Content (JArr xs) \<and> list_all is_record xs \<longrightarrow>
      list_sessions E st p = Inr (map (identifier_or (JStr ''?'')) xs)) \<and>
   (files st (session_file E p) = Missing \<and> ia \<noteq> ib \<longrightarrow>
      list_sessions E
        (fst (session_setup E (fst (session_setup E st a b ia p)) c d ib p)) p =
        Inr [JStr ia, JStr ib])"
proof (intro conjI impI)
  assume "files st (session_file E p) = Missing"
  then show "list_sessions E st p = Inr []"
    by (simp add: list_sessions_def)
next
  assume "files st (session_file E p) = Content (JArr xs) \<and> list_all is_record xs"
  then show "list_sessions E st p = Inr (map (identifier_or (JStr ''?'')) xs)"
    by (simp add: list_sessions_records)
next
  assume h: "files st (session_file E p) = Missing \<and> ia \<noteq> ib"
  let ?f = "session_file E p"
  let ?st1 = "fst (session_setup E st a b ia p)"
  let ?st2 = "fst (session_setup E ?st1 c d ib p)"
  let ?ra = "session_data ia (strip a) (strip b)"
  let ?rb = "session_data ib (strip c) (strip d)"
  from h have ok: "store_ok (files st ?f)" and ne: "ib \<noteq> ia" by auto
  have f1: "files ?st1 ?f = Content (JArr [?ra])"
    using h by (simp add: setup_state_ok [OF ok])
  then have ok1: "store_ok (files ?st1 ?f)"
    by (simp add: is_record_session_data)
  have f2: "files ?st2 ?f = Content (JArr [?ra, ?rb])"
    using ne by (simp add: setup_state_ok [OF ok1] f1 has_identifier_session_data_iff)
  have "list_all is_record [?ra, ?rb]"
    by (simp add: is_record_session_data)
  from list_sessions_records [OF f2 this]
  show "list_sessions E ?st2 p = Inr [JStr ia, JStr ib]"
    by (simp add: session_data_def)
qed

theorem list_sessions_behaviour_witness:
  "files (disk_with Missing) (session_file echo_env (Some ''s.json'')) = Missing \<and>
   list_sessions echo_env (disk_with Missing) (Some ''s.json'') = Inr [] \<and>
   (files (disk_with (Content (JArr [rec_no_id, rec_y]))) (session_file echo_env (Some ''s.json''))
      = Content (JArr [rec_no_id, rec_y]) \<and> list_all is_record [rec_no_id, rec_y]) \<and>
   list_sessions echo_env (disk_with (Content (JArr [rec_no_id, rec_y]))) (Some ''s.json'') =
     Inr [JStr ''?'', JStr ''y''] \<and>
   ''a'' \<noteq> ''b'' \<and>
   list_sessions echo_env
     (fst (session_setup echo_env
            (fst (session_setup echo_env (disk_with Missing) ''d1'' ''k1'' ''a'' (Some ''s.json'')))
            ''d2'' ''k2'' ''b'' (Some ''s.json'')))
     (Some ''s.json'') = Inr [JStr ''a'', JStr ''b'']"
proof -
  let ?p = "Some ''s.json''"
  let ?two = "disk_with (Content (JArr [rec_no_id, rec_y]))"
  have m: "files (disk_with Missing) (session_file echo_env ?p) = Missing"
    by code_simp
  have k: "files ?two (session_file echo_env ?p) = Content (JArr [rec_no_id, rec_y]) \<and>
      list_all is_record [rec_no_id, rec_y]"
    by code_simp
  have ne: "''a'' \<noteq> ''b''" by simp
  have ids: "map (identifier_or (JStr ''?'')) [rec_no_id, rec_y] = [JStr ''?'', JStr ''y'']"
    by code_simp
  note T = list_sessions_behaviour [where E = echo_env and p = ?p]
  note r1 = T [where st = "disk_with Missing" and xs = "[]" and ia = "''a''" and ib = "''b''",
      THEN conjunct1, THEN mp, OF m]
  note r2 = T [where st = ?two and xs = "[rec_no_id, rec_y]" and ia = "''a''" and ib = "''b''",
      THEN conjunct2, THEN conjunct1, THEN mp, OF k, unfolded ids]
  note r3 = T [where st = "disk_with Missing" and xs = "[]" and ia = "''a''" and ib = "''b''"
      and a = "''d1''" and b = "''k1''" and c = "''d2''" and d = "''k2''",
      THEN conjunct2, THEN conjunct2, THEN mp, OF conjI [OF m ne]]
  from m r1 k r2 ne r3 show ?thesis by blast
qed

text \<open>
  C9. On a file that does not decode \<^verbatim>\<open>list_sessions\<close> has no handler: the decode
  error reaches the caller, and the result is not the empty list.
\<close>

theorem list_sessions_undecodable:
  assumes "files st (session_file E p) = Invalid"
  shows "list_sessions E st p = Inl JSONDecodeError"
  using assms by (simp add: list_sessions_def)

theorem list_sessions_undecodable_witness:
  "files (disk_with Invalid) (session_file echo_env (Some ''s.json'')) = Invalid \<and>
   list_sessions echo_env (disk_with Invalid) (Some ''s.json'') = Inl JSONDecodeError \<and>
   list_sessions echo_env (disk_with Invalid) (Some ''s.json'') \<noteq> Inr []"
proof -
  have h: "files (disk_with Invalid) (session_file echo_env (Some ''s.json'')) = Invalid"
    by code_simp
  note r = list_sessions_undecodable [OF h]
  then have "list_sessions echo_env (disk_with Invalid) (Some ''s.json'') \<noteq> Inr []"
    by simp
  with h r show ?thesis by blast
qed

subsection \<open>Other identifiers and duplicates\<close>

lemma has_identifier_unique:
  "has_identifier y r \<Longrightarrow> x \<noteq> y \<Longrightarrow> \<not> has_identifier x r"
  by (simp add: has_identifier_def)

lemma filter_other_identifier:
  assumes "x \<noteq> y"
  shows "filter (has_identifier y) (filter (\<lambda>r. \<not> has_identifier x r) xs) =
         filter (has_identifier y) xs"
  using assms by (induction xs) (auto dest: has_identifier_unique)

lemma merge_existing_other:
  assumes "merge_existing fl x = Inr ex" and "x \<noteq> y"
  shows "filter (has_identifier y) ex = filter (has_identifier y) (records_of fl)"
proof (cases fl)
  case Missing
  with assms show ?thesis by (simp add: merge_existing_def)
next
  case Invalid
  with assms show ?thesis by (simp add: merge_existing_def)
next
  case (Content v)
  with assms(1) obtain ss where it: "py_iter v = Inr ss" and ko: "keep_others ss x = Inr ex"
    by (auto simp: merge_existing_def split: sum.splits)
  from keep_others_Inr [OF ko]
  have recs: "list_all is_record ss" and ex: "ex = filter (\<lambda>r. \<not> has_identifier x r) ss"
    by simp_all
  show ?thesis
  proof (cases v)
    case (JArr xs)
    with it have "ss = xs" by simp
    with ex have e: "ex = filter (\<lambda>r. \<not> has_identifier x r) xs" by simp
    from Content JArr have "records_of fl = xs" by simp
    then show ?thesis
      unfolding e by (simp only: filter_other_identifier [OF assms(2)])
  next
    case (JObj kvs)
    with it recs have "kvs = []" by (cases kvs) auto
    with it ex Content JObj show ?thesis by auto
  next
    case (JStr cs)
    with it recs have "cs = []" by (cases cs) auto
    with it ex Content JStr show ?thesis by auto
  qed (use it in simp_all)
qed

text \<open>
  C7. Saving identifier \<open>x\<close> leaves the records of any other identifier \<open>y\<close> as
  they were: the same JSON values (identifier, password and both cookies), in the same
  order, whatever the file held before and whether or not the call raises.
\<close>

theorem setup_keeps_other_identifier:
  assumes "x \<noteq> y"
  shows "filter (has_identifier y)
           (records_of (files (fst (session_setup E st a b x p)) (session_file E p))) =
         filter (has_identifier y) (records_of (files st (session_file E p)))"
proof (cases "merge_existing (files st (session_file E p)) x")
  case (Inl e)
  then show ?thesis by (simp add: setup_merge_fails)
next
  case (Inr ex)
  have "\<not> has_identifier y (session_data x (strip a) (strip b))"
    using assms by (simp add: has_identifier_session_data_iff)
  then show ?thesis
    using merge_existing_other [OF Inr assms]
    by (simp add: setup_after_merge [OF Inr])
qed

theorem setup_keeps_other_identifier_witness:
  "''x'' \<noteq> ''y'' \<and>
   filter (has_identifier ''y'')
     (records_of (files (disk_with (Content (JArr [rec_y, rec_a_old]))) ''s.json'')) = [rec_y] \<and>
   filter (has_identifier ''y'')
     (records_of (files (fst (session_setup echo_env (disk_with (Content (JArr [rec_y, rec_a_old])))
                               ''dc'' ''key'' ''x'' (Some ''s.json'')))
                   (session_file echo_env (Some ''s.json'')))) = [rec_y]"
proof -
  have ne: "''x'' \<noteq> ''y''" by simp
  have before: "filter (has_identifier ''y'')
      (records_of (files (disk_with (Content (JArr [rec_y, rec_a_old]))) ''s.json'')) = [rec_y]"
    by code_simp
  have f: "session_file echo_env (Some ''s.json'') = ''s.json''"
    by code_simp
  note T = setup_keeps_other_identifier [OF ne, where E = echo_env
      and st = "disk_with (Content (JArr [rec_y, rec_a_old]))" and p = "Some ''s.json''"
      and a = "''dc''" and b = "''key''"]
  have after: "filter (has_identifier ''y'')
     (records_of (files (fst (session_setup echo_env (disk_with (Content (JArr [rec_y, rec_a_old])))
                               ''dc'' ''key'' ''x'' (Some ''s.json'')))
                   (session_file echo_env (Some ''s.json'')))) = [rec_y]"
    unfolding T unfolding f by (rule before)
  from ne before after show ?thesis by blast
qed

text \<open>
  C8. When several records carry the identifier, \<^verbatim>\<open>load\<close> hands the first of them
  in file order to the client factory; what follows it in the array is never looked
  at.
\<close>

theorem load_first_match:
  assumes "files st (session_file E p) = Content (JArr (pre @ r # post))"
    and "list_all is_record pre"
    and "list_all (\<lambda>q. \<not> has_identifier i q) pre"
    and "has_identifier i r"
  shows "load E st i p cfg =
           from_cookies E r (case cfg of None \<Rightarrow> noop_config E | Some c \<Rightarrow> c)"
proof -
  from assms(3) have "\<forall>q \<in> set pre. \<not> has_identifier i q"
    by (simp add: list_all_iff)
  from load_written [OF assms(1,2) this assms(4)] show ?thesis .
qed

theorem load_first_match_witness:
  "files (disk_with (Content (JArr ([rec_y] @ rec_a_old # [rec_a_dup, JInt 7]))))
     (session_file echo_env (Some ''s.json'')) =
     Content (JArr ([rec_y] @ rec_a_old # [rec_a_dup, JInt 7])) \<and>
   list_all is_record [rec_y] \<and>
   list_all (\<lambda>q. \<not> has_identifier ''a'' q) [rec_y] \<and>
   has_identifier ''a'' rec_a_old \<and>
   has_identifier ''a'' rec_a_dup \<and>
   rec_a_dup \<noteq> rec_a_old \<and>
   load echo_env (disk_with (Content (JArr ([rec_y] @ rec_a_old # [rec_a_dup, JInt 7]))))
     ''a'' (Some ''s.json'') None = Inr rec_a_old"
proof -
  let ?st = "disk_with (Content (JArr ([rec_y] @ rec_a_old # [rec_a_dup, JInt 7])))"
  have h1: "files ?st (session_file echo_env (Some ''s.json'')) =
      Content (JArr ([rec_y] @ rec_a_old # [rec_a_dup, JInt 7]))"
    by code_simp
  have h2: "list_all is_record [rec_y]" by code_simp
  have h3: "list_all (\<lambda>q. \<not> has_identifier ''a'' q) [rec_y]" by code_simp
  have h4: "has_identifier ''a'' rec_a_old" by code_simp
  have d1: "has_identifier ''a'' rec_a_dup" by code_simp
  have d2: "rec_a_dup \<noteq> rec_a_old" by code_simp
  have "load echo_env ?st ''a'' (Some ''s.json'') None =
      from_cookies echo_env rec_a_old (case None of None \<Rightarrow> noop_config echo_env | Some c \<Rightarrow> c)"
    by (rule load_first_match [OF h1 h2 h3 h4])
  then have r: "load echo_env ?st ''a'' (Some ''s.json'') None = Inr rec_a_old"
    by (simp add: echo_env_def)
  from h1 h2 h3 h4 d1 d2 r show ?thesis by blast
qed

subsection \<open>The write of \<^verbatim>\<open>setup\<close> comes before its \<^verbatim>\<open>load\<close>\<close>

text \<open>
  C10. \<^verbatim>\<open>setup\<close> writes the merged array and prints the confirmation before it
  calls \<^verbatim>\<open>load\<close>. When the client factory fails on the new record, \<^verbatim>\<open>setup\<close>
  raises that error, and the state it leaves behind already holds the new record at
  the end of the file and the printed line.
\<close>

theorem setup_persists_before_load:
  assumes "store_ok (files st (session_file E p))"
    and "from_cookies E (session_data i (strip a) (strip b)) (noop_config E) = Inl e"
  shows "snd (session_setup E st a b i p) = Inl e \<and>
         files (fst (session_setup E st a b i p)) (session_file E p) =
           Content (JArr (filter (\<lambda>r. \<not> has_identifier i r)
                            (records_of (files st (session_file E p)))
                          @ [session_data i (strip a) (strip b)])) \<and>
         stdout (fst (session_setup E st a b i p)) =
           stdout st @ [saved_msg i (session_file E p)] \<and>
         load E (fst (session_setup E st a b i p)) i p None = Inl e"
proof -
  note run = setup_after_merge [OF merge_existing_ok [OF assms(1)], of a b]
  have ret: "snd (session_setup E st a b i p) =
               load E (fst (session_setup E st a b i p)) i p None"
    using merge_existing_ok [OF assms(1), of i] by (simp add: session_setup_def Let_def)
  have res: "snd (session_setup E st a b i p) = Inl e"
    by (simp add: run assms(2))
  with ret show ?thesis
    by (simp add: run)
qed

theorem setup_persists_before_load_witness:
  "store_ok (files (disk_with (Content (JArr [rec_y]))) (session_file failing_env (Some ''s.json''))) \<and>
   from_cookies failing_env (session_data ''a'' (strip ''dc '') (strip ''key''))
     (noop_config failing_env) = Inl (OtherError ''login failed'') \<and>
   snd (session_setup failing_env (disk_with (Content (JArr [rec_y]))) ''dc '' ''key'' ''a''
          (Some ''s.json'')) = Inl (OtherError ''login failed'') \<and>
   files (fst (session_setup failing_env (disk_with (Content (JArr [rec_y]))) ''dc '' ''key'' ''a''
                 (Some ''s.json''))) ''s.json'' =
     Content (JArr [rec_y, session_data ''a'' ''dc'' ''key''])"
proof -
  let ?st = "disk_with (Content (JArr [rec_y]))"
  let ?p = "Some ''s.json''"
  have h1: "store_ok (files ?st (session_file failing_env ?p))"
    by code_simp
  have h2: "from_cookies failing_env (session_data ''a'' (strip ''dc '') (strip ''key''))
     (noop_config failing_env) = Inl (OtherError ''login failed'')"
    by (simp add: failing_env_def)
  have f: "session_file failing_env ?p = ''s.json''"
    by code_simp
  have written: "filter (\<lambda>r. \<not> has_identifier ''a'' r) (records_of (files ?st ''s.json''))
      @ [session_data ''a'' (strip ''dc '') (strip ''key'')] =
      [rec_y, session_data ''a'' ''dc'' ''key'']"
    by code_simp
  note T = setup_persists_before_load [OF h1 h2]
  note r1 = T [THEN conjunct1]
  note r2 = T [THEN conjunct2, THEN conjunct1, unfolded f written]
  from h1 h2 r1 r2 show ?thesis by blast
qed

end
